theory Spec2Isabelle
  imports Main "HOL-Library.Word"
begin

unbundle bit_operations_syntax

section \<open>The file-open path of the VFS layer (kernel/fs/open.c)\<close>

subsection \<open>Data model\<close>

text \<open>
  A C \<^verbatim>\<open>int\<close> is a 32-bit word: \<open>+\<close> and unary minus wrap, \<open>sint\<close> reads it
  as two's complement. Pointers to \<^verbatim>\<open>file_t\<close> and \<^verbatim>\<open>vnode_t\<close> are addresses;
  a pointer variable that may be \<^verbatim>\<open>NULL\<close> is an \<open>option\<close>.
\<close>

type_synonym int32 = "32 word"
type_synonym fptr = nat
type_synonym vptr = nat

text \<open>
  The macros that open.c takes from headers outside the file
  (fs/fcntl.h, fs/file.h, fs/stat.h, errno.h, the process header). Their values are
  parameters of the model; a theorem states what it needs of them.
  \<^verbatim>\<open>NFILES\<close> is the declared size of \<^verbatim>\<open>p_files\<close>.
\<close>

record macros =
  O_WRONLY :: int32
  O_RDWR :: int32
  O_APPEND :: int32
  FMODE_READ :: int32
  FMODE_WRITE :: int32
  FMODE_APPEND :: int32
  S_IFDIR :: int32
  NFILES :: nat
  EMFILE :: int32
  EINVAL :: int32
  ENOMEM :: int32
  EISDIR :: int32

text \<open>
  The open-file object. A field that has not been assigned since the object was
  obtained is \<open>None\<close>; \<^verbatim>\<open>f_vnode\<close> is a pointer, so \<open>None\<close> is also \<^verbatim>\<open>NULL\<close>.
\<close>

record file_t =
  f_mode :: "int32 option"
  f_vnode :: "vptr option"
  f_pos :: "int32 option"
  f_refcount :: int

record vnode_t =
  vn_mode :: int32
  vn_refcount :: int

record proc_t =
  p_files :: "fptr option list"
  p_cwd :: "vptr option"

text \<open>
  The kernel state that \<^verbatim>\<open>do_open\<close> reads and writes: the current process
  (\<^verbatim>\<open>curproc\<close>), the open-file objects that are live, by address, and the vnodes, by
  address (a vnode whose count is 0 is not held by anyone).
\<close>

record kstate =
  curproc :: proc_t
  files :: "fptr \<rightharpoonup> file_t"
  vnodes :: "vptr \<Rightarrow> vnode_t"

text \<open>
  What C leaves undefined is a value of the model: an array access outside
  \<^verbatim>\<open>p_files\<close>, and a read through a \<^verbatim>\<open>NULL\<close> vnode pointer.
\<close>

datatype fault = OutOfBounds | NullDeref

subsection \<open>The collaborators outside open.c\<close>

text \<open>
  Modelled from the spec: \<^verbatim>\<open>fget(-1)\<close>, the file-object allocator, is not in open.c.
  The spec: "acquire() -> file-object-reference | allocation-failure", the object is
  "created with an initial reference" and is "uninitialized: mode unset, vnode reference
  absent, offset undefined". The allocator's answer (\<^verbatim>\<open>NULL\<close>, or the address of the
  storage it hands out) is the parameter \<open>alloc\<close>.
\<close>

definition fget :: "fptr option \<Rightarrow> kstate \<Rightarrow> fptr option \<times> kstate" where
  "fget alloc s =
     (case alloc of
        None \<Rightarrow> (None, s)
      | Some a \<Rightarrow>
          (Some a,
           s\<lparr>files := (files s)(a \<mapsto>
                \<lparr>f_mode = None, f_vnode = None, f_pos = None, f_refcount = 1\<rparr>)\<rparr>))"

text \<open>
  Modelled from the spec: \<^verbatim>\<open>fput\<close> is not in open.c. The spec: "release
  (file-object-reference) decrements reference count, destroys object only when it
  reaches zero".
\<close>

definition fput :: "fptr \<Rightarrow> kstate \<Rightarrow> kstate" where
  "fput a s =
     (case files s a of
        None \<Rightarrow> s
      | Some f \<Rightarrow>
          if f_refcount f - 1 = 0 then s\<lparr>files := (files s)(a := None)\<rparr>
          else s\<lparr>files := (files s)(a \<mapsto> f\<lparr>f_refcount := f_refcount f - 1\<rparr>)\<rparr>)"

text \<open>
  Modelled from the spec: taking and releasing a vnode reference are not in open.c.
  The spec: a vnode reference is "released via an explicit decrement-and-possibly-destroy
  operation"; \<open>vref\<close> is the increment that the resolver performs for the reference it
  hands out.
\<close>

definition vref :: "vptr \<Rightarrow> kstate \<Rightarrow> kstate" where
  "vref v s =
     s\<lparr>vnodes := (vnodes s)(v := (vnodes s v)\<lparr>vn_refcount := vn_refcount (vnodes s v) + 1\<rparr>)\<rparr>"

definition vput :: "vptr \<Rightarrow> kstate \<Rightarrow> kstate" where
  "vput v s =
     s\<lparr>vnodes := (vnodes s)(v := (vnodes s v)\<lparr>vn_refcount := vn_refcount (vnodes s v) - 1\<rparr>)\<rparr>"

text \<open>
  Modelled from the spec: \<^verbatim>\<open>open_namev\<close>, the path resolver, is not in open.c.
  The spec: "resolve(path, flags, starting-directory) -> (vnode-reference, status)",
  which "may return a partially-constructed vnode reference alongside a failure status".
  The resolver's answer for a path, flags and starting directory is the parameter
  \<open>rsv\<close>: the status and what it stores through \<^verbatim>\<open>res_vnode\<close>. A vnode it stores
  carries a reference, which the caller owns.
\<close>

type_synonym resolver = "string \<Rightarrow> int32 \<Rightarrow> vptr option \<Rightarrow> int32 \<times> vptr option"

definition open_namev ::
  "resolver \<Rightarrow> string \<Rightarrow> int32 \<Rightarrow> vptr option \<Rightarrow> kstate \<Rightarrow> (int32 \<times> vptr option) \<times> kstate" where
  "open_namev rsv filename oflags base s =
     (case rsv filename oflags base of
        (res, None) \<Rightarrow> ((res, None), s)
      | (res, Some v) \<Rightarrow> ((res, Some v), vref v s))"

subsection \<open>The descriptor allocator\<close>

text \<open>
  \<^verbatim>\<open>get_empty_fd\<close>, lines 22 to 35. The loop
  \<^verbatim>\<open>for (fd = 0; fd < NFILES; fd++) if (!p->p_files[fd]) return fd;\<close>
  is the recursion on \<open>fd\<close>; the index is returned as an \<^verbatim>\<open>int\<close>, and the
  exit after the loop returns \<^verbatim>\<open>-EMFILE\<close> (the \<^verbatim>\<open>dbg\<close> call before it only
  logs). The function returns a value and nothing else: it cannot change the table.
\<close>

function get_empty_fd_from :: "macros \<Rightarrow> proc_t \<Rightarrow> nat \<Rightarrow> int32" where
  "get_empty_fd_from c p fd =
     (if fd < NFILES c then
        (if p_files p ! fd = None then of_nat fd
         else get_empty_fd_from c p (Suc fd))
      else - EMFILE c)"
  by pat_completeness auto
termination
  by (relation "measure (\<lambda>(c, p, fd). NFILES c - fd)") auto

declare get_empty_fd_from.simps [simp del]

definition get_empty_fd :: "macros \<Rightarrow> proc_t \<Rightarrow> int32" where
  "get_empty_fd c p = get_empty_fd_from c p 0"

subsection \<open>The open operation\<close>

text \<open>
  The assignment \<^verbatim>\<open>curproc->p_files[fd] = x\<close> (lines 104, 130, 142, 150), with the
  index an \<^verbatim>\<open>int\<close>: outside the array it is a fault.
\<close>

definition set_fd :: "int32 \<Rightarrow> fptr option \<Rightarrow> kstate \<Rightarrow> fault + kstate" where
  "set_fd fd x s =
     (if 0 \<le> sint fd \<and> nat (sint fd) < length (p_files (curproc s)) then
        Inr (s\<lparr>curproc := (curproc s)\<lparr>p_files := (p_files (curproc s))[nat (sint fd) := x]\<rparr>\<rparr>)
      else Inl OutOfBounds)"

text \<open>A store to a field of the file object at address \<open>a\<close>.\<close>

definition upd_file :: "fptr \<Rightarrow> (file_t \<Rightarrow> file_t) \<Rightarrow> kstate \<Rightarrow> kstate" where
  "upd_file a g s = s\<lparr>files := (files s)(a := map_option g (files s a))\<rparr>"

text \<open>
  The local \<^verbatim>\<open>mode\<close> of \<^verbatim>\<open>do_open\<close> as it stands at the check of line 128: the
  decoding of lines 77 to 83 and the derivation of lines 110 to 126. The locals
  \<^verbatim>\<open>trunc\<close> and \<^verbatim>\<open>creat\<close> of lines 84 and 85 are never read.
\<close>

definition open_mode :: "macros \<Rightarrow> int32 \<Rightarrow> int32" where
  "open_mode c oflags =
     (let wr = oflags AND O_WRONLY c;
          rdwr = oflags AND O_RDWR c;
          rd = (if wr = 0 \<and> rdwr = 0 then 1 else 0 :: int32);
          append = oflags AND O_APPEND c;
          mode = - 1
      in if wr \<noteq> 0 \<or> rd \<noteq> 0 \<or> rdwr \<noteq> 0 then
           (let mode = (if rd \<noteq> 0 then FMODE_READ c
                        else if wr \<noteq> 0 then FMODE_WRITE c
                        else if rdwr \<noteq> 0 then FMODE_READ c OR FMODE_WRITE c
                        else mode)
            in if append \<noteq> 0 then mode OR FMODE_APPEND c else mode)
         else mode)"

text \<open>
  \<^verbatim>\<open>do_open\<close>, lines 73 to 163. The result is a fault, or the returned \<^verbatim>\<open>int\<close>
  with the state the call leaves.
\<close>

definition do_open ::
  "macros \<Rightarrow> fptr option \<Rightarrow> resolver \<Rightarrow> string \<Rightarrow> int32 \<Rightarrow> kstate \<Rightarrow> fault + int32 \<times> kstate" where
  "do_open c alloc rsv filename oflags s =
     (let wr = oflags AND O_WRONLY c;
          rdwr = oflags AND O_RDWR c
      in if wr \<noteq> 0 \<and> rdwr \<noteq> 0 then Inr (- EINVAL c, s)
         else
           let fd = get_empty_fd c (curproc s)
           in if fd = - EMFILE c then Inr (- EMFILE c, s)
              else
                (case fget alloc s of
                   (None, s1) \<Rightarrow> Inr (- ENOMEM c, s1)
                 | (Some file, s1) \<Rightarrow>
                     (case set_fd fd (Some file) s1 of
                        Inl e \<Rightarrow> Inl e
                      | Inr s2 \<Rightarrow>
                          let mode = open_mode c oflags
                          in if mode = - 1 then
                               (case set_fd fd None s2 of
                                  Inl e \<Rightarrow> Inl e
                                | Inr s3 \<Rightarrow> Inr (- EINVAL c, fput file s3))
                             else
                               let s3 = upd_file file (\<lambda>f. f\<lparr>f_mode := Some mode\<rparr>) s2;
                                   base = p_cwd (curproc s3)
                               in (case open_namev rsv filename oflags base s3 of
                                     ((res, res_vnode), s4) \<Rightarrow>
                                       if sint res < 0 then
                                         (case set_fd fd None s4 of
                                            Inl e \<Rightarrow> Inl e
                                          | Inr s5 \<Rightarrow>
                                              let s6 = (case res_vnode of
                                                          None \<Rightarrow> s5
                                                        | Some v \<Rightarrow> vput v s5)
                                              in Inr (res, fput file s6))
                                       else
                                         (case res_vnode of
                                            None \<Rightarrow> Inl NullDeref
                                          | Some v \<Rightarrow>
                                              if vn_mode (vnodes s4 v) AND S_IFDIR c \<noteq> 0
                                                 \<and> mode \<noteq> FMODE_READ c then
                                                (case set_fd fd None s4 of
                                                   Inl e \<Rightarrow> Inl e
                                                 | Inr s5 \<Rightarrow>
                                                     Inr (- EISDIR c, fput file (vput v s5)))
                                              else
                                                let s5 = upd_file file (\<lambda>f. f\<lparr>f_vnode := Some v\<rparr>) s4;
                                                    s6 = upd_file file (\<lambda>f. f\<lparr>f_pos := Some 0\<rparr>) s5
                                                in Inr (fd, s6))))))"

subsection \<open>The mode a request asks for\<close>

text \<open>
  The spec's words for the stored mode, to compare \<open>open_mode\<close> with: "read-only,
  write-only, or read-write, OR'd with append if requested", where no base intent
  "implies read-only".
\<close>

definition requested_mode :: "macros \<Rightarrow> int32 \<Rightarrow> int32" where
  "requested_mode c oflags =
     (let base = (if oflags AND O_RDWR c \<noteq> 0 then FMODE_READ c OR FMODE_WRITE c
                  else if oflags AND O_WRONLY c \<noteq> 0 then FMODE_WRITE c
                  else FMODE_READ c)
      in if oflags AND O_APPEND c \<noteq> 0 then base OR FMODE_APPEND c else base)"

subsection \<open>Sample data\<close>

text \<open>
  Values for the macros, and a small system to run the model on: a process with
  descriptors 0 to 2 open on the file objects at addresses 1 to 3, the directory
  vnode 10 as its working directory, the device vnode 11 behind the open files, and
  regular files elsewhere. The second state has every descriptor in use.
\<close>

definition sample_macros :: macros where
  "sample_macros =
     \<lparr>O_WRONLY = 1, O_RDWR = 2, O_APPEND = 0x400,
      FMODE_READ = 1, FMODE_WRITE = 2, FMODE_APPEND = 4,
      S_IFDIR = 0x200, NFILES = 32,
      EMFILE = 24, EINVAL = 22, ENOMEM = 12, EISDIR = 21\<rparr>"

definition sample_file :: file_t where
  "sample_file = \<lparr>f_mode = Some 3, f_vnode = Some 11, f_pos = Some 0, f_refcount = 1\<rparr>"

definition sample_state :: kstate where
  "sample_state =
     \<lparr>curproc = \<lparr>p_files = [Some 1, Some 2, Some 3] @ replicate 29 None, p_cwd = Some 10\<rparr>,
      files = [1 \<mapsto> sample_file, 2 \<mapsto> sample_file, 3 \<mapsto> sample_file],
      vnodes = (\<lambda>v. if v = 10 then \<lparr>vn_mode = 0x200, vn_refcount = 1\<rparr>
                    else if v = 11 then \<lparr>vn_mode = 0x100, vn_refcount = 3\<rparr>
                    else \<lparr>vn_mode = 0x800, vn_refcount = 0\<rparr>)\<rparr>"

definition sample_full_state :: kstate where
  "sample_full_state =
     \<lparr>curproc = \<lparr>p_files = replicate 32 (Some 1), p_cwd = Some 10\<rparr>,
      files = [1 \<mapsto> sample_file\<lparr>f_refcount := 32\<rparr>],
      vnodes = (\<lambda>v. if v = 10 then \<lparr>vn_mode = 0x200, vn_refcount = 1\<rparr>
                    else if v = 11 then \<lparr>vn_mode = 0x100, vn_refcount = 1\<rparr>
                    else \<lparr>vn_mode = 0x800, vn_refcount = 0\<rparr>)\<rparr>"

text \<open>
  A resolver: the root directory and one regular file exist; a device file without
  a device fails with a vnode already stored (status -6); every other path is missing
  (status -2).
\<close>

definition sample_resolver :: resolver where
  "sample_resolver filename oflags base =
     (if filename = ''/'' then (0, Some 10)
      else if filename = ''/motd'' then (0, Some 20)
      else if filename = ''/dev/null'' then (- 6, Some 12)
      else (- 2, None))"

section \<open>Facts about the model\<close>

subsection \<open>The scan for a free slot\<close>

text \<open>
  A descriptor index below \<open>2 ^ 31\<close> is the same number as an \<^verbatim>\<open>int\<close>. The scan
  from \<open>k\<close> returns the first null slot at or after \<open>k\<close>, and \<^verbatim>\<open>-EMFILE\<close> when
  there is none.
\<close>

lemma sint_of_nat_idx: "i < 2 ^ 31 \<Longrightarrow> sint (of_nat i :: 32 word) = int i"
  by (simp add: signed_of_nat signed_take_bit_int_eq_self)

lemma gef_from_found:
  "k \<le> i \<Longrightarrow> i < NFILES c \<Longrightarrow> p_files p ! i = None \<Longrightarrow>
   \<forall>j. k \<le> j \<and> j < i \<longrightarrow> p_files p ! j \<noteq> None \<Longrightarrow>
   get_empty_fd_from c p k = of_nat i"
proof (induction "i - k" arbitrary: k)
  case 0
  then have "k = i" by simp
  with 0 show ?case by (simp add: get_empty_fd_from.simps)
next
  case (Suc n)
  then have lt: "k < i" by simp
  with Suc.prems have occ: "p_files p ! k \<noteq> None" by simp
  have n: "n = i - Suc k" using Suc.hyps(2) by simp
  have rest: "\<forall>j. Suc k \<le> j \<and> j < i \<longrightarrow> p_files p ! j \<noteq> None"
    using Suc.prems(4) by simp
  have "get_empty_fd_from c p (Suc k) = of_nat i"
    using lt Suc.prems(2,3) rest by (intro Suc.hyps(1) [OF n]) simp_all
  moreover have "k < NFILES c" using lt Suc.prems(2) by simp
  ultimately show ?case
    using occ by (subst get_empty_fd_from.simps) (simp del: not_None_eq)
qed

lemma gef_from_full:
  "\<forall>j. k \<le> j \<and> j < NFILES c \<longrightarrow> p_files p ! j \<noteq> None \<Longrightarrow>
   get_empty_fd_from c p k = - EMFILE c"
proof (induction "NFILES c - k" arbitrary: k)
  case 0
  then have "\<not> k < NFILES c" by simp
  then show ?case by (simp add: get_empty_fd_from.simps)
next
  case (Suc n)
  then have lt: "k < NFILES c" by simp
  with Suc.prems have occ: "p_files p ! k \<noteq> None" by simp
  have n: "n = NFILES c - Suc k" using Suc.hyps(2) by simp
  have rest: "\<forall>j. Suc k \<le> j \<and> j < NFILES c \<longrightarrow> p_files p ! j \<noteq> None"
    using Suc.prems by simp
  have "get_empty_fd_from c p (Suc k) = - EMFILE c"
    using rest by (rule Suc.hyps(1) [OF n])
  then show ?case
    using lt occ by (subst get_empty_fd_from.simps) (simp del: not_None_eq)
qed

lemma gef_from_cases:
  "(get_empty_fd_from c p k = - EMFILE c \<and> (\<forall>j. k \<le> j \<and> j < NFILES c \<longrightarrow> p_files p ! j \<noteq> None))
   \<or> (\<exists>i. k \<le> i \<and> i < NFILES c \<and> p_files p ! i = None
          \<and> (\<forall>j. k \<le> j \<and> j < i \<longrightarrow> p_files p ! j \<noteq> None)
          \<and> get_empty_fd_from c p k = of_nat i)"
proof (cases "\<exists>i. k \<le> i \<and> i < NFILES c \<and> p_files p ! i = None")
  case False
  then have "\<forall>j. k \<le> j \<and> j < NFILES c \<longrightarrow> p_files p ! j \<noteq> None" by meson
  then show ?thesis using gef_from_full [of k c p] by (simp del: not_None_eq)
next
  case True
  define i where "i = (LEAST i. k \<le> i \<and> i < NFILES c \<and> p_files p ! i = None)"
  have P: "k \<le> i \<and> i < NFILES c \<and> p_files p ! i = None"
    unfolding i_def using True by (rule LeastI_ex)
  have m: "\<forall>j. k \<le> j \<and> j < i \<longrightarrow> p_files p ! j \<noteq> None"
  proof (intro allI impI notI, elim conjE)
    fix j assume j: "k \<le> j" "j < i" "p_files p ! j = None"
    then have "k \<le> j \<and> j < NFILES c \<and> p_files p ! j = None" using P by simp
    then have "i \<le> j" unfolding i_def by (rule Least_le)
    with j show False by simp
  qed
  have "get_empty_fd_from c p k = of_nat i"
    using P m gef_from_found [of k i c p] by (simp del: not_None_eq)
  with P m show ?thesis by (intro disjI2 exI [of _ i]) (simp del: not_None_eq)
qed

lemma set_fd_idx:
  "i < length (p_files (curproc s)) \<Longrightarrow> i < 2 ^ 31 \<Longrightarrow>
   set_fd (of_nat i) x s =
     Inr (s\<lparr>curproc := (curproc s)\<lparr>p_files := (p_files (curproc s))[i := x]\<rparr>\<rparr>)"
  by (simp add: set_fd_def sint_of_nat_idx)

lemma list_update_None_id: "xs ! i = None \<Longrightarrow> xs[i := None] = xs"
  by (metis list_update_id)

lemma get_empty_fd_found:
  assumes "i < NFILES c" and "p_files p ! i = None"
    and "\<forall>j<i. p_files p ! j \<noteq> None"
  shows "get_empty_fd c p = of_nat i"
  unfolding get_empty_fd_def using assms
  by (intro gef_from_found) (simp_all del: not_None_eq)

lemma get_empty_fd_full:
  assumes "\<forall>j<NFILES c. p_files p ! j \<noteq> None"
  shows "get_empty_fd c p = - EMFILE c"
  unfolding get_empty_fd_def using assms
  by (intro gef_from_full) (simp del: not_None_eq)

lemma get_empty_fd_cases:
  obtains (full) "get_empty_fd c p = - EMFILE c" "\<forall>j<NFILES c. p_files p ! j \<noteq> None"
  | (slot) i where "i < NFILES c" "p_files p ! i = None"
      "\<forall>j<i. p_files p ! j \<noteq> None" "get_empty_fd c p = of_nat i"
  using gef_from_cases [of c p 0] unfolding get_empty_fd_def
  by (auto simp del: not_None_eq)

subsection \<open>Error codes and mode bits\<close>

text \<open>
  A positive errno negated is negative, so no descriptor index equals it. When the
  three mode bits together are not the all-ones word, no OR of some of them is, and
  the derived mode is never the sentinel; for flags with at most one base intent it is
  the mode the request asks for.
\<close>

lemma sint_neg_errno:
  assumes "0 < sint (e :: 32 word)"
  shows "sint (- e) < 0"
proof -
  have up: "sint e < 2 ^ 31"
    using sint_lt [of e] by simp
  have "- e = of_int (- sint e)" by simp
  then have "sint (- e) = signed_take_bit 31 (- sint e)"
    by (simp only: signed_of_int) simp
  also have "\<dots> = - sint e"
    using assms up by (simp add: signed_take_bit_int_eq_self)
  finally show ?thesis using assms by simp
qed

lemma of_nat_ne_neg_errno:
  assumes "0 < sint (e :: 32 word)" and "i < 2 ^ 31"
  shows "of_nat i \<noteq> - e"
proof
  assume "of_nat i = - e"
  then have "e = - of_nat i" by simp
  then have "e = of_int (- int i)" by simp
  then have "sint e = signed_take_bit 31 (- int i)" by (simp only: signed_of_int) simp
  also have "\<dots> = - int i"
    using assms(2) by (simp add: signed_take_bit_int_eq_self)
  finally show False using assms(1) by simp
qed

lemma or_all_ones_mid: "(x :: 32 word) OR z = - 1 \<Longrightarrow> x OR y OR z = - 1"
  by (metis or.left_commute word_or_max)

lemma or_all_ones_right: "(y :: 32 word) OR z = - 1 \<Longrightarrow> x OR y OR z = - 1"
  by (simp add: or.assoc)

lemma or_all_ones_left: "(x :: 32 word) OR y = - 1 \<Longrightarrow> x OR y OR z = - 1"
  by (metis (no_types, lifting) or.assoc word_bitwise_m1_simps(4))

lemma open_mode_not_sentinel:
  assumes "FMODE_READ c OR FMODE_WRITE c OR FMODE_APPEND c \<noteq> - 1"
  shows "open_mode c oflags \<noteq> - 1"
proof -
  have r: "FMODE_READ c \<noteq> - 1"
  proof
    assume "FMODE_READ c = - 1"
    then have "FMODE_READ c OR FMODE_WRITE c OR FMODE_APPEND c = - 1" by simp
    with assms show False by simp
  qed
  have w: "FMODE_WRITE c \<noteq> - 1"
  proof
    assume "FMODE_WRITE c = - 1"
    then have "FMODE_READ c OR FMODE_WRITE c OR FMODE_APPEND c = - 1" by simp
    with assms show False by simp
  qed
  have rw: "FMODE_READ c OR FMODE_WRITE c \<noteq> - 1"
  proof
    assume "FMODE_READ c OR FMODE_WRITE c = - 1"
    then have "FMODE_READ c OR FMODE_WRITE c OR FMODE_APPEND c = - 1"
      by (rule or_all_ones_left)
    with assms show False by simp
  qed
  have ra: "FMODE_READ c OR FMODE_APPEND c \<noteq> - 1"
  proof
    assume "FMODE_READ c OR FMODE_APPEND c = - 1"
    then have "FMODE_READ c OR FMODE_WRITE c OR FMODE_APPEND c = - 1"
      by (rule or_all_ones_mid)
    with assms show False by simp
  qed
  have wa: "FMODE_WRITE c OR FMODE_APPEND c \<noteq> - 1"
  proof
    assume "FMODE_WRITE c OR FMODE_APPEND c = - 1"
    then have "FMODE_READ c OR FMODE_WRITE c OR FMODE_APPEND c = - 1"
      by (rule or_all_ones_right)
    with assms show False by simp
  qed
  show ?thesis
    unfolding open_mode_def Let_def using assms r w rw ra wa by (simp add: or.assoc)
qed

lemma open_mode_requested:
  assumes "\<not> (oflags AND O_WRONLY c \<noteq> 0 \<and> oflags AND O_RDWR c \<noteq> 0)"
  shows "open_mode c oflags = requested_mode c oflags"
  using assms by (auto simp add: open_mode_def requested_mode_def Let_def)

subsection \<open>The sample system\<close>

lemmas sample_defs = sample_macros_def sample_state_def sample_full_state_def
  sample_resolver_def sample_file_def

lemma sample_fd: "get_empty_fd sample_macros (curproc sample_state) = 3"
  by (simp add: get_empty_fd_def get_empty_fd_from.simps sample_macros_def sample_state_def)

lemmas run_defs = fget_def fput_def vref_def vput_def open_namev_def set_fd_def upd_file_def
  open_mode_def Let_def

lemma sample_free: "\<exists>i<NFILES sample_macros. p_files (curproc sample_state) ! i = None"
  by (intro exI [of _ 3]) (simp add: sample_defs)

lemma sample_lowest: "\<forall>j<3. p_files (curproc sample_state) ! j \<noteq> None"
  by (auto simp add: sample_defs less_Suc_eq numeral_3_eq_3)

subsection \<open>Opening a directory\<close>

text \<open>
  The test of line 149: a directory is refused, with the state restored, for every
  derived mode other than \<^verbatim>\<open>FMODE_READ\<close> itself, and opened for that one.
\<close>

lemma do_open_directory_eisdir:
  assumes valid: "\<not> (oflags AND O_WRONLY c \<noteq> 0 \<and> oflags AND O_RDWR c \<noteq> 0)"
    and free: "\<exists>i<NFILES c. p_files (curproc s) ! i = None"
    and alloc: "alloc = Some a"
    and fresh: "files s a = None"
    and res: "rsv filename oflags (p_cwd (curproc s)) = (res, Some v)" "0 \<le> sint res"
    and dir: "vn_mode (vnodes s v) AND S_IFDIR c \<noteq> 0"
    and mode: "open_mode c oflags \<noteq> FMODE_READ c"
    and len: "length (p_files (curproc s)) = NFILES c"
    and nf: "NFILES c < 2 ^ 31"
    and emfile: "0 < sint (EMFILE c)"
    and fmode: "FMODE_READ c OR FMODE_WRITE c OR FMODE_APPEND c \<noteq> - 1"
  shows "do_open c alloc rsv filename oflags s = Inr (- EISDIR c, s)"
proof (cases c "curproc s" rule: get_empty_fd_cases)
  case full
  with free show ?thesis by (auto simp del: not_None_eq)
next
  case (slot i)
  have i: "i < length (p_files (curproc s))" "i < 2 ^ 31"
    using slot(1) len nf by simp_all
  have ne: "of_nat i \<noteq> - EMFILE c"
    using emfile i(2) by (rule of_nat_ne_neg_errno)
  have m: "open_mode c oflags \<noteq> - 1"
    using fmode by (rule open_mode_not_sentinel)
  show ?thesis
    using valid slot(2,4) i ne m res alloc fresh dir mode
    by (auto simp add: do_open_def Let_def fget_def set_fd_idx open_namev_def upd_file_def
          vref_def vput_def fput_def list_update_None_id fun_upd_idem)
qed

lemma do_open_directory_plain_read:
  assumes nowr: "oflags AND O_WRONLY c = 0"
    and nordwr: "oflags AND O_RDWR c = 0"
    and noapp: "oflags AND O_APPEND c = 0"
    and free: "\<exists>i<NFILES c. p_files (curproc s) ! i = None"
    and alloc: "alloc = Some a"
    and res: "rsv filename oflags (p_cwd (curproc s)) = (res, Some v)" "0 \<le> sint res"
    and len: "length (p_files (curproc s)) = NFILES c"
    and nf: "NFILES c < 2 ^ 31"
    and emfile: "0 < sint (EMFILE c)"
    and fmode: "FMODE_READ c OR FMODE_WRITE c OR FMODE_APPEND c \<noteq> - 1"
  shows "\<exists>s'. do_open c alloc rsv filename oflags s = Inr (get_empty_fd c (curproc s), s')
           \<and> 0 \<le> sint (get_empty_fd c (curproc s))"
proof (cases c "curproc s" rule: get_empty_fd_cases)
  case full
  with free show ?thesis by (auto simp del: not_None_eq)
next
  case (slot i)
  have i: "i < length (p_files (curproc s))" "i < 2 ^ 31"
    using slot(1) len nf by simp_all
  have ne: "of_nat i \<noteq> - EMFILE c"
    using emfile i(2) by (rule of_nat_ne_neg_errno)
  have m: "open_mode c oflags = FMODE_READ c"
    using nowr nordwr noapp by (simp add: open_mode_def)
  have m1: "FMODE_READ c \<noteq> - 1"
    using open_mode_not_sentinel [OF fmode, of oflags] m by simp
  show ?thesis
    using nowr slot(4) i ne m m1 res alloc
    by (simp add: do_open_def Let_def fget_def set_fd_idx open_namev_def upd_file_def
          vref_def sint_of_nat_idx)
qed

section \<open>Flag validation and mode derivation\<close>

text \<open>
  C4. When the write-only bit and the read-write bit of the flags are both set,
  \<^verbatim>\<open>do_open\<close> returns \<^verbatim>\<open>-EINVAL\<close> and the state it leaves is the state it was
  called in: the descriptor table is unchanged, no slot is taken and no file object
  is obtained.
\<close>

theorem do_open_both_intents_einval:
  assumes "oflags AND O_WRONLY c \<noteq> 0" and "oflags AND O_RDWR c \<noteq> 0"
  shows "do_open c alloc rsv filename oflags s = Inr (- EINVAL c, s)"
  using assms by (simp add: do_open_def)

theorem do_open_both_intents_einval_witness:
  "do_open sample_macros (Some 7) sample_resolver ''/motd'' 3 sample_state
     = Inr (- 22, sample_state)"
  using do_open_both_intents_einval
    [of 3 sample_macros "Some 7" sample_resolver "''/motd''" sample_state]
  by (simp add: sample_macros_def)

text \<open>
  C7. When neither the write-only bit nor the read-write bit is set, the request is
  read-only: the derived mode is \<^verbatim>\<open>FMODE_READ\<close>, with \<^verbatim>\<open>FMODE_APPEND\<close> OR'd in
  exactly when the append bit is set.
\<close>

theorem open_mode_no_base_intent:
  assumes "oflags AND O_WRONLY c = 0" and "oflags AND O_RDWR c = 0"
  shows "open_mode c oflags =
           (if oflags AND O_APPEND c \<noteq> 0 then FMODE_READ c OR FMODE_APPEND c
            else FMODE_READ c)"
  using assms by (simp add: open_mode_def)

theorem open_mode_no_base_intent_witness:
  "open_mode sample_macros 0 = 1 \<and> open_mode sample_macros 0x400 = 5"
  using open_mode_no_base_intent [of 0 sample_macros]
    open_mode_no_base_intent [of "0x400" sample_macros]
  by (simp add: sample_macros_def)

text \<open>
  C8. For flags that pass the validation of line 87 (not both the write-only and the
  read-write bit), the mode at the check of line 128 is never the sentinel -1, so the
  defensive branch of lines 128 to 133 is not taken. The three mode bits together are
  not the all-ones word.
\<close>

theorem open_mode_defensive_branch_unreachable:
  assumes "\<not> (oflags AND O_WRONLY c \<noteq> 0 \<and> oflags AND O_RDWR c \<noteq> 0)"
    and "FMODE_READ c OR FMODE_WRITE c OR FMODE_APPEND c \<noteq> - 1"
  shows "open_mode c oflags \<noteq> - 1"
  using assms(2) by (rule open_mode_not_sentinel)

theorem open_mode_defensive_branch_unreachable_witness:
  "open_mode sample_macros 0x401 \<noteq> - 1"
  using open_mode_defensive_branch_unreachable [of "0x401" sample_macros]
  by (simp add: sample_macros_def)

section \<open>The descriptor allocator\<close>

text \<open>
  C5 as stated: with every slot occupied \<^verbatim>\<open>do_open\<close> fails with \<^verbatim>\<open>-EMFILE\<close>. It does
  not for flags with both intent bits: line 87 returns \<^verbatim>\<open>-EINVAL\<close> before the table is
  looked at. Here the table is full and the flags are \<^verbatim>\<open>O_WRONLY | O_RDWR\<close>.
\<close>

theorem do_open_full_table_precedence_counterexample:
  "None \<notin> set (p_files (curproc sample_full_state))
   \<and> do_open sample_macros (Some 7) sample_resolver ''/motd'' 3 sample_full_state
       = Inr (- EINVAL sample_macros, sample_full_state)
   \<and> - EINVAL sample_macros \<noteq> - EMFILE sample_macros"
  by (simp add: do_open_def sample_defs)

text \<open>
  C5, amended. When the table has a null slot, \<^verbatim>\<open>get_empty_fd\<close> returns the lowest
  index below \<^verbatim>\<open>NFILES\<close> whose slot is null (it returns a value only, the table is
  not touched). When every slot is occupied, \<^verbatim>\<open>get_empty_fd\<close> returns \<^verbatim>\<open>-EMFILE\<close>,
  and \<^verbatim>\<open>do_open\<close> fails leaving the state unchanged: with \<^verbatim>\<open>-EMFILE\<close> when the flags
  pass validation, with \<^verbatim>\<open>-EINVAL\<close> when both intent bits are set.
\<close>

theorem get_empty_fd_lowest_or_exhausted:
  assumes len: "length (p_files (curproc s)) = NFILES c"
    and nf: "NFILES c < 2 ^ 31"
  shows "((\<exists>i<NFILES c. p_files (curproc s) ! i = None) \<longrightarrow>
            (\<exists>i<NFILES c. p_files (curproc s) ! i = None
               \<and> (\<forall>j<i. p_files (curproc s) ! j \<noteq> None)
               \<and> get_empty_fd c (curproc s) = of_nat i
               \<and> sint (get_empty_fd c (curproc s)) = int i))
       \<and> ((\<forall>i<NFILES c. p_files (curproc s) ! i \<noteq> None) \<longrightarrow>
            get_empty_fd c (curproc s) = - EMFILE c
            \<and> do_open c alloc rsv filename oflags s =
                Inr (if oflags AND O_WRONLY c \<noteq> 0 \<and> oflags AND O_RDWR c \<noteq> 0
                     then - EINVAL c else - EMFILE c, s))"
proof (intro conjI impI)
  assume ex: "\<exists>i<NFILES c. p_files (curproc s) ! i = None"
  show "\<exists>i<NFILES c. p_files (curproc s) ! i = None
          \<and> (\<forall>j<i. p_files (curproc s) ! j \<noteq> None)
          \<and> get_empty_fd c (curproc s) = of_nat i
          \<and> sint (get_empty_fd c (curproc s)) = int i"
  proof (cases c "curproc s" rule: get_empty_fd_cases)
    case full
    with ex show ?thesis by (auto simp del: not_None_eq)
  next
    case (slot i)
    from slot(1) nf have "sint (of_nat i :: 32 word) = int i"
      by (intro sint_of_nat_idx) simp
    with slot show ?thesis by (intro exI [of _ i]) (simp del: not_None_eq)
  qed
next
  assume "\<forall>i<NFILES c. p_files (curproc s) ! i \<noteq> None"
  then show "get_empty_fd c (curproc s) = - EMFILE c" by (rule get_empty_fd_full)
  then show "do_open c alloc rsv filename oflags s =
                Inr (if oflags AND O_WRONLY c \<noteq> 0 \<and> oflags AND O_RDWR c \<noteq> 0
                     then - EINVAL c else - EMFILE c, s)"
    by (simp add: do_open_def)
qed

theorem get_empty_fd_lowest_or_exhausted_witness:
  "(\<exists>i<32. p_files (curproc sample_state) ! i = None
       \<and> (\<forall>j<i. p_files (curproc sample_state) ! j \<noteq> None)
       \<and> get_empty_fd sample_macros (curproc sample_state) = of_nat i
       \<and> sint (get_empty_fd sample_macros (curproc sample_state)) = int i)
   \<and> get_empty_fd sample_macros (curproc sample_full_state) = - 24
   \<and> do_open sample_macros (Some 7) sample_resolver ''/motd'' 0 sample_full_state
       = Inr (- 24, sample_full_state)"
proof -
  have "\<exists>i<NFILES sample_macros. p_files (curproc sample_state) ! i = None"
    by (intro exI [of _ 3]) (simp add: sample_defs)
  moreover have "\<forall>i<NFILES sample_macros. p_files (curproc sample_full_state) ! i \<noteq> None"
    by (simp add: sample_defs)
  ultimately show ?thesis
    using get_empty_fd_lowest_or_exhausted [where s = sample_state and c = sample_macros]
      get_empty_fd_lowest_or_exhausted
        [where s = sample_full_state and c = sample_macros and oflags = 0
           and alloc = "Some 7" and rsv = sample_resolver and filename = "''/motd''"]
    by (simp add: sample_defs del: not_None_eq)
qed

text \<open>
  C9. \<^verbatim>\<open>get_empty_fd\<close> returns \<^verbatim>\<open>-EMFILE\<close> or an index from 0 up to, not including,
  \<^verbatim>\<open>NFILES\<close>; and no access of \<^verbatim>\<open>do_open\<close> to \<^verbatim>\<open>p_files[fd]\<close> is outside the table:
  the call never ends in the out-of-bounds fault.
\<close>

theorem get_empty_fd_range_and_table_bounds:
  assumes len: "length (p_files (curproc s)) = NFILES c"
    and nf: "NFILES c < 2 ^ 31"
  shows "(get_empty_fd c (curproc s) = - EMFILE c
          \<or> (0 \<le> sint (get_empty_fd c (curproc s))
              \<and> sint (get_empty_fd c (curproc s)) < int (NFILES c)))
       \<and> do_open c alloc rsv filename oflags s \<noteq> Inl OutOfBounds"
proof (cases c "curproc s" rule: get_empty_fd_cases)
  case full
  then show ?thesis by (simp add: do_open_def Let_def)
next
  case (slot i)
  have i: "i < length (p_files (curproc s))" "i < 2 ^ 31"
    using slot(1) len nf by simp_all
  have "sint (get_empty_fd c (curproc s)) = int i"
    using slot(4) i(2) by (simp add: sint_of_nat_idx)
  moreover have "do_open c alloc rsv filename oflags s \<noteq> Inl OutOfBounds"
    using slot(4) i
    by (auto simp add: do_open_def Let_def fget_def set_fd_idx open_namev_def upd_file_def
          vref_def
        split: option.splits prod.splits)
  ultimately show ?thesis using slot(1) by simp
qed

theorem get_empty_fd_range_and_table_bounds_witness:
  "(get_empty_fd sample_macros (curproc sample_state) = - 24
    \<or> (0 \<le> sint (get_empty_fd sample_macros (curproc sample_state))
        \<and> sint (get_empty_fd sample_macros (curproc sample_state)) < 32))
   \<and> do_open sample_macros (Some 7) sample_resolver ''/motd'' 1 sample_state \<noteq> Inl OutOfBounds"
  using get_empty_fd_range_and_table_bounds
    [where s = sample_state and c = sample_macros and alloc = "Some 7"
       and rsv = sample_resolver and filename = "''/motd''" and oflags = 1]
  by (simp add: sample_defs)

section \<open>The success path\<close>

text \<open>
  C2. For flags with a single base intent (not both the write-only and the read-write
  bit), each optionally with append, and a path that resolves to a vnode that is not a
  directory: when the table has a free slot and \<^verbatim>\<open>fget\<close> returns a file object,
  \<^verbatim>\<open>do_open\<close> returns the lowest free index, that slot of the table holds the file
  object, and the object's \<^verbatim>\<open>f_mode\<close> is the mode the request asks for, its
  \<^verbatim>\<open>f_vnode\<close> the resolved vnode, its \<^verbatim>\<open>f_pos\<close> 0.
\<close>

theorem do_open_regular_file_succeeds:
  assumes valid: "\<not> (oflags AND O_WRONLY c \<noteq> 0 \<and> oflags AND O_RDWR c \<noteq> 0)"
    and free: "i < NFILES c" "p_files (curproc s) ! i = None"
      "\<forall>j<i. p_files (curproc s) ! j \<noteq> None"
    and alloc: "alloc = Some a"
    and res: "rsv filename oflags (p_cwd (curproc s)) = (res, Some v)" "0 \<le> sint res"
    and reg: "vn_mode (vnodes s v) AND S_IFDIR c = 0"
    and len: "length (p_files (curproc s)) = NFILES c"
    and nf: "NFILES c < 2 ^ 31"
    and emfile: "0 < sint (EMFILE c)"
    and fmode: "FMODE_READ c OR FMODE_WRITE c OR FMODE_APPEND c \<noteq> - 1"
  shows "\<exists>fd s'. do_open c alloc rsv filename oflags s = Inr (fd, s')
           \<and> sint fd = int i
           \<and> p_files (curproc s') ! i = Some a
           \<and> files s' a = Some \<lparr>f_mode = Some (requested_mode c oflags), f_vnode = Some v,
                                 f_pos = Some 0, f_refcount = 1\<rparr>"
proof -
  have fd: "get_empty_fd c (curproc s) = of_nat i"
    using free by (rule get_empty_fd_found)
  have i: "i < length (p_files (curproc s))" "i < 2 ^ 31"
    using free(1) len nf by simp_all
  have ne: "of_nat i \<noteq> - EMFILE c"
    using emfile i(2) by (rule of_nat_ne_neg_errno)
  have m: "open_mode c oflags \<noteq> - 1"
    using fmode by (rule open_mode_not_sentinel)
  have rq: "open_mode c oflags = requested_mode c oflags"
    using valid by (rule open_mode_requested)
  have "do_open c alloc rsv filename oflags s =
          Inr (of_nat i,
               upd_file a (\<lambda>f. f\<lparr>f_pos := Some 0\<rparr>)
                 (upd_file a (\<lambda>f. f\<lparr>f_vnode := Some v\<rparr>)
                   (vref v (upd_file a (\<lambda>f. f\<lparr>f_mode := Some (requested_mode c oflags)\<rparr>)
                     (s\<lparr>files := (files s)(a \<mapsto>
                            \<lparr>f_mode = None, f_vnode = None, f_pos = None, f_refcount = 1\<rparr>),
                        curproc := (curproc s)\<lparr>p_files := (p_files (curproc s))[i := Some a]\<rparr>\<rparr>)))))"
    using valid fd i ne m res reg alloc
    by (auto simp add: do_open_def Let_def fget_def set_fd_idx rq [symmetric] open_namev_def
          upd_file_def vref_def)
  then show ?thesis
    using i by (simp add: sint_of_nat_idx upd_file_def vref_def)
qed

theorem do_open_regular_file_succeeds_witness:
  "\<exists>fd s'. do_open sample_macros (Some 7) sample_resolver ''/motd'' 0x402 sample_state
              = Inr (fd, s')
     \<and> sint fd = 3
     \<and> p_files (curproc s') ! 3 = Some 7
     \<and> files s' 7 = Some \<lparr>f_mode = Some 7, f_vnode = Some 20, f_pos = Some 0,
                            f_refcount = 1\<rparr>"
proof -
  have "requested_mode sample_macros 0x402 = 7"
    by (simp add: requested_mode_def sample_macros_def)
  then show ?thesis
    using do_open_regular_file_succeeds
      [where c = sample_macros and s = sample_state and oflags = "0x402" and i = 3
         and alloc = "Some 7" and a = 7 and rsv = sample_resolver and filename = "''/motd''"
         and res = 0 and v = 20, OF _ _ _ sample_lowest]
    by (simp add: sample_defs)
qed

section \<open>Failure leaves no trace\<close>

text \<open>
  C1. Whenever \<^verbatim>\<open>do_open\<close> returns an error (a negative value), the state it leaves
  is the state it was called in: the descriptor table is the table before the call (the
  slot that was written holds \<^verbatim>\<open>NULL\<close> again), the file object obtained from
  \<^verbatim>\<open>fget\<close> is released and gone, and every vnode has the count it had, so nothing
  half-initialized stays in the table. The table has \<^verbatim>\<open>NFILES\<close> entries,
  \<^verbatim>\<open>NFILES\<close> is an \<^verbatim>\<open>int\<close>, and the allocator hands out storage that holds no
  live file object.
\<close>

theorem do_open_error_restores_state:
  assumes run: "do_open c alloc rsv filename oflags s = Inr (r, s')"
    and err: "sint r < 0"
    and len: "length (p_files (curproc s)) = NFILES c"
    and nf: "NFILES c < 2 ^ 31"
    and fresh: "\<forall>a. alloc = Some a \<longrightarrow> files s a = None"
  shows "s' = s"
proof -
  from gef_from_cases [of c "curproc s" 0]
  consider (full) "get_empty_fd c (curproc s) = - EMFILE c"
    | (slot) i where "i < NFILES c" "p_files (curproc s) ! i = None"
        "get_empty_fd c (curproc s) = of_nat i"
    unfolding get_empty_fd_def by blast
  then show ?thesis
  proof cases
    case full
    with run show ?thesis
      by (simp add: do_open_def Let_def split: if_splits)
  next
    case slot
    from slot nf len have i: "i < length (p_files (curproc s))" "i < 2 ^ 31" by simp_all
    have pos: "0 \<le> sint (of_nat i :: 32 word)" using i by (simp add: sint_of_nat_idx)
    show ?thesis
    proof (cases alloc)
      case None
      with run slot show ?thesis
        by (simp add: do_open_def Let_def fget_def split: if_splits)
    next
      case (Some a)
      with fresh have fr: "files s a = None" by simp
      from run slot Some i fr pos err show ?thesis
        by (auto simp add: do_open_def Let_def fget_def set_fd_idx upd_file_def fput_def
              open_namev_def vput_def vref_def list_update_None_id fun_upd_idem
            split: if_splits option.splits prod.splits)
    qed
  qed
qed

theorem do_open_error_restores_state_witness:
  "do_open sample_macros (Some 7) sample_resolver ''/dev/null'' 0 sample_state
     = Inr (- 6, sample_state)"
proof -
  have "\<exists>s'. do_open sample_macros (Some 7) sample_resolver ''/dev/null'' 0 sample_state
            = Inr (- 6, s')"
    apply (simp add: do_open_def sample_fd Let_def)
    apply (simp add: run_defs sample_defs)
    done
  then obtain s' where
    run: "do_open sample_macros (Some 7) sample_resolver ''/dev/null'' 0 sample_state
            = Inr (- 6, s')" ..
  have "s' = sample_state"
    by (rule do_open_error_restores_state [OF run]) (simp_all add: sample_defs)
  with run show ?thesis by simp
qed

text \<open>
  C6. When the call reaches \<^verbatim>\<open>open_namev\<close> (the flags pass validation, a slot is free,
  \<^verbatim>\<open>fget\<close> returns an object) and the resolver fails with a negative status,
  \<^verbatim>\<open>do_open\<close> returns that very status, and the state is the state before the call:
  the slot is null again, the vnode the resolver may have stored is released, the file
  object is released.
\<close>

theorem do_open_resolver_error_passthrough:
  assumes valid: "\<not> (oflags AND O_WRONLY c \<noteq> 0 \<and> oflags AND O_RDWR c \<noteq> 0)"
    and free: "\<exists>i<NFILES c. p_files (curproc s) ! i = None"
    and alloc: "alloc = Some a"
    and fresh: "files s a = None"
    and res: "rsv filename oflags (p_cwd (curproc s)) = (res, rv)" "sint res < 0"
    and len: "length (p_files (curproc s)) = NFILES c"
    and nf: "NFILES c < 2 ^ 31"
    and emfile: "0 < sint (EMFILE c)"
    and fmode: "FMODE_READ c OR FMODE_WRITE c OR FMODE_APPEND c \<noteq> - 1"
  shows "do_open c alloc rsv filename oflags s = Inr (res, s)"
proof (cases c "curproc s" rule: get_empty_fd_cases)
  case full
  with free show ?thesis by (auto simp del: not_None_eq)
next
  case (slot i)
  have i: "i < length (p_files (curproc s))" "i < 2 ^ 31"
    using slot(1) len nf by simp_all
  have ne: "of_nat i \<noteq> - EMFILE c"
    using emfile i(2) by (rule of_nat_ne_neg_errno)
  have m: "open_mode c oflags \<noteq> - 1"
    using fmode by (rule open_mode_not_sentinel)
  show ?thesis
    using valid slot(2,4) i ne m res alloc fresh
    by (cases rv)
      (auto simp add: do_open_def Let_def fget_def set_fd_idx open_namev_def upd_file_def
         vref_def vput_def fput_def list_update_None_id fun_upd_idem)
qed

theorem do_open_resolver_error_passthrough_witness:
  "do_open sample_macros (Some 7) sample_resolver ''/dev/null'' 1 sample_state
     = Inr (- 6, sample_state)"
  using do_open_resolver_error_passthrough
    [where c = sample_macros and s = sample_state and oflags = 1
       and alloc = "Some 7" and a = 7 and rsv = sample_resolver and filename = "''/dev/null''"
       and res = "- 6" and rv = "Some 12", OF _ sample_free]
  by (simp add: sample_defs)

section \<open>Directories\<close>

text \<open>
  C3. The claim: a directory opened with a mode that includes write access fails with
  \<^verbatim>\<open>-EISDIR\<close>, and a directory opened with a mode without write access may succeed.
  The test of line 149 is \<^verbatim>\<open>mode != FMODE_READ\<close>: every mode other than
  \<^verbatim>\<open>FMODE_READ\<close> itself is refused on a directory (\<open>do_open_directory_eisdir\<close>).
  So the second half fails for a read-only request with the append flag. Whenever
  \<^verbatim>\<open>FMODE_APPEND\<close> has a bit that \<^verbatim>\<open>FMODE_READ\<close> has not, flags with the append
  bit and neither intent bit derive the mode \<^verbatim>\<open>FMODE_READ | FMODE_APPEND\<close>, and
  opening a directory with them returns \<^verbatim>\<open>-EISDIR\<close>, the state restored. With the
  sample macros that mode has no write bit.
\<close>

theorem do_open_directory_read_append_eisdir:
  assumes nowr: "oflags AND O_WRONLY c = 0"
    and nordwr: "oflags AND O_RDWR c = 0"
    and app: "oflags AND O_APPEND c \<noteq> 0"
    and bit: "FMODE_READ c OR FMODE_APPEND c \<noteq> FMODE_READ c"
    and free: "\<exists>i<NFILES c. p_files (curproc s) ! i = None"
    and alloc: "alloc = Some a"
    and fresh: "files s a = None"
    and res: "rsv filename oflags (p_cwd (curproc s)) = (res, Some v)" "0 \<le> sint res"
    and dir: "vn_mode (vnodes s v) AND S_IFDIR c \<noteq> 0"
    and len: "length (p_files (curproc s)) = NFILES c"
    and nf: "NFILES c < 2 ^ 31"
    and emfile: "0 < sint (EMFILE c)"
    and fmode: "FMODE_READ c OR FMODE_WRITE c OR FMODE_APPEND c \<noteq> - 1"
  shows "open_mode c oflags = FMODE_READ c OR FMODE_APPEND c
       \<and> do_open c alloc rsv filename oflags s = Inr (- EISDIR c, s)"
proof
  show m: "open_mode c oflags = FMODE_READ c OR FMODE_APPEND c"
    using nowr nordwr app by (simp add: open_mode_def)
  have valid: "\<not> (oflags AND O_WRONLY c \<noteq> 0 \<and> oflags AND O_RDWR c \<noteq> 0)"
    using nowr by simp
  have "open_mode c oflags \<noteq> FMODE_READ c"
    using m bit by simp
  with valid free alloc fresh res dir
  show "do_open c alloc rsv filename oflags s = Inr (- EISDIR c, s)"
    using len nf emfile fmode by (rule do_open_directory_eisdir)
qed

theorem do_open_directory_read_append_eisdir_witness:
  "open_mode sample_macros 0x400 AND FMODE_WRITE sample_macros = 0
   \<and> do_open sample_macros (Some 7) sample_resolver ''/'' 0x400 sample_state
       = Inr (- 21, sample_state)"
  using do_open_directory_read_append_eisdir
    [where c = sample_macros and s = sample_state and oflags = "0x400"
       and alloc = "Some 7" and a = 7 and rsv = sample_resolver and filename = "''/''"
       and res = 0 and v = 10, OF _ _ _ _ sample_free]
  by (simp add: sample_defs)

section \<open>What a call may change\<close>

text \<open>
  C10. Whatever \<^verbatim>\<open>do_open\<close> returns, the process keeps its other fields (its working
  directory among them), the table keeps its length, and every slot other than the
  one \<^verbatim>\<open>get_empty_fd\<close> returned keeps its entry. On success (a non-negative return)
  the return value is that slot's index, the table differs from the table before the
  call in that slot only, and the slot holds the file object just initialized: the
  derived mode, the resolved vnode, offset 0. The errno macros are positive.
\<close>

theorem do_open_frame:
  assumes run: "do_open c alloc rsv filename oflags s = Inr (r, s')"
    and len: "length (p_files (curproc s)) = NFILES c"
    and nf: "NFILES c < 2 ^ 31"
    and errno: "0 < sint (EINVAL c)" "0 < sint (EMFILE c)" "0 < sint (ENOMEM c)"
      "0 < sint (EISDIR c)"
  shows "curproc s' = (curproc s)\<lparr>p_files := p_files (curproc s')\<rparr>
       \<and> p_cwd (curproc s') = p_cwd (curproc s)
       \<and> length (p_files (curproc s')) = length (p_files (curproc s))
       \<and> (\<forall>j<NFILES c. int j \<noteq> sint (get_empty_fd c (curproc s)) \<longrightarrow>
             p_files (curproc s') ! j = p_files (curproc s) ! j)
       \<and> (0 \<le> sint r \<longrightarrow>
             r = get_empty_fd c (curproc s)
             \<and> (\<exists>a. alloc = Some a
                   \<and> p_files (curproc s') = (p_files (curproc s))[nat (sint r) := Some a]
                   \<and> files s' a =
                       Some \<lparr>f_mode = Some (open_mode c oflags),
                             f_vnode = snd (rsv filename oflags (p_cwd (curproc s))),
                             f_pos = Some 0, f_refcount = 1\<rparr>))"
proof -
  have neg: "sint (- EINVAL c) < 0" "sint (- EMFILE c) < 0" "sint (- ENOMEM c) < 0"
    "sint (- EISDIR c) < 0"
    using errno by (simp_all add: sint_neg_errno)
  show ?thesis
  proof (cases c "curproc s" rule: get_empty_fd_cases)
    case full
    with run neg show ?thesis
      by (auto simp add: do_open_def Let_def split: if_splits)
  next
    case (slot i)
    have i: "i < length (p_files (curproc s))" "i < 2 ^ 31"
      using slot(1) len nf by simp_all
    have si: "sint (of_nat i :: 32 word) = int i"
      using i(2) by (rule sint_of_nat_idx)
    show ?thesis
      using run slot(2,4) i si neg
      by (auto simp add: do_open_def Let_def fget_def set_fd_idx open_namev_def upd_file_def
            vref_def vput_def fput_def list_update_None_id
          split: if_splits option.splits prod.splits)
  qed
qed

theorem do_open_frame_witness:
  "\<exists>s'. do_open sample_macros (Some 7) sample_resolver ''/motd'' 2 sample_state = Inr (3, s')
     \<and> p_cwd (curproc s') = Some 10
     \<and> p_files (curproc s') = (p_files (curproc sample_state))[3 := Some 7]
     \<and> files s' 7 = Some \<lparr>f_mode = Some 3, f_vnode = Some 20, f_pos = Some 0,
                            f_refcount = 1\<rparr>"
proof -
  have "\<exists>s'. do_open sample_macros (Some 7) sample_resolver ''/motd'' 2 sample_state
            = Inr (3, s')"
    apply (simp add: do_open_def sample_fd Let_def)
    apply (simp add: run_defs sample_defs)
    done
  then obtain s' where
    run: "do_open sample_macros (Some 7) sample_resolver ''/motd'' 2 sample_state = Inr (3, s')" ..
  have m: "open_mode sample_macros 2 = 3"
    by (simp add: open_mode_def sample_macros_def)
  have "p_cwd (curproc s') = Some 10
     \<and> p_files (curproc s') = (p_files (curproc sample_state))[3 := Some 7]
     \<and> files s' 7 = Some \<lparr>f_mode = Some 3, f_vnode = Some 20, f_pos = Some 0,
                            f_refcount = 1\<rparr>"
    using do_open_frame [OF run] m by (simp add: sample_defs)
  with run show ?thesis by blast
qed

end
